theory Spec2Isabelle
  imports Main "HOL-Library.Sublist"
begin

section \<open>The website summarizer of week1/claude_solution.py\<close>

text \<open>
  The script fetches the text of a web page, builds a two-message chat prompt from it,
  sends the prompt to a local chat-completion endpoint and prints the answer. The
  scraper (\<open>fetch_website_contents\<close>) and the \<open>OpenAI\<close> client library are
  external collaborators: the embedding takes them as parameters and keeps their
  effects explicit.

  Text is a \<open>string\<close>, the UTF-8 bytes of the Python \<open>str\<close>: concatenation and
  repetition, the only string operations of the script, commute with the encoding.
\<close>

subsection \<open>Text\<close>

definition nl :: string where
  \<comment> \<open>the newline character written \<open>\n\<close> in the source\<close>
  "nl = [CHR 0x0A]"

definition check_mark :: string where
  \<comment> \<open>U+2713\<close>
  "check_mark = [CHR 0xE2, CHR 0x9C, CHR 0x93]"

definition ballot_x :: string where
  \<comment> \<open>U+2717\<close>
  "ballot_x = [CHR 0xE2, CHR 0x9C, CHR 0x97]"

definition page_facing_up :: string where
  \<comment> \<open>U+1F4C4\<close>
  "page_facing_up = [CHR 0xF0, CHR 0x9F, CHR 0x93, CHR 0x84]"

definition bullet :: string where
  \<comment> \<open>U+2022\<close>
  "bullet = [CHR 0xE2, CHR 0x80, CHR 0xA2]"

definition py_str :: "string option \<Rightarrow> string" where
  \<comment> \<open>what \<open>print\<close> writes for a value that is a \<open>str\<close> or \<open>None\<close>\<close>
  "py_str v = (case v of None \<Rightarrow> ''None'' | Some s \<Rightarrow> s)"

subsection \<open>Module globals (lines 22 to 38)\<close>

text \<open>
  A Python module global is a mutable binding that a function reads when it is called.
  The four globals are a field of the program state, so that "no operation assigns one
  of them" is a statement about the operations.
\<close>

record config =
  OLLAMA_BASE_URL :: string
  MODEL :: string
  SYSTEM_PROMPT :: string
  USER_PROMPT_PREFIX :: string

definition module_globals :: config where
  "module_globals =
     \<lparr> OLLAMA_BASE_URL = ''http://localhost:11434/v1'',
       MODEL = ''llama3.2'',
       SYSTEM_PROMPT =
         nl @ ''You are a snarky assistant that analyzes the contents of a website,'' @ nl @
         ''and provides a short, snarky, humorous summary, ignoring text that might be navigation related.'' @ nl @
         ''Respond in markdown. Do not wrap the markdown in a code block - respond just with the markdown.'' @ nl,
       USER_PROMPT_PREFIX =
         nl @ ''Here are the contents of a website.'' @ nl @
         ''Provide a short summary of this website.'' @ nl @
         ''If it includes news or announcements, then summarize these too.'' @ nl @ nl \<rparr>"

subsection \<open>Data\<close>

text \<open>
  An exception is either an instance of \<open>Exception\<close> (with the text \<open>str(e)\<close>), which
  \<open>except Exception\<close> catches, or \<open>SystemExit\<close>, which \<open>sys.exit\<close> raises and
  \<open>except Exception\<close> lets through. Other exceptions outside \<open>Exception\<close>
  (\<open>KeyboardInterrupt\<close>) are not modelled.
\<close>

datatype exn = Exception string | SystemExit int

text \<open>A request message is the \<open>dict\<close> literal of the source, its items in order.\<close>

type_synonym message = "(string \<times> string) list"

text \<open>The part of the chat-completion response that the script reads.\<close>

record chat_completion_message =
  content :: "string option"

record choice =
  message :: chat_completion_message

record chat_completion =
  choices :: "choice list"

subsection \<open>Effects\<close>

text \<open>
  The collaborators act on a world \<open>'w\<close> that the script cannot see (the network, the
  server): the same call may answer differently later in the run. \<open>'c\<close> is the client
  object.
\<close>

record ('w, 'c) env =
  fetch_website_contents :: "string \<Rightarrow> 'w \<Rightarrow> (exn + string) \<times> 'w"
  OpenAI :: "string \<Rightarrow> string \<Rightarrow> 'w \<Rightarrow> (exn + 'c) \<times> 'w"
  chat_completions_create :: "'c \<Rightarrow> string \<Rightarrow> message list \<Rightarrow> 'w \<Rightarrow> (exn + chat_completion) \<times> 'w"

text \<open>
  The trace lists what the script did, in order: each \<open>print\<close> with the source line
  of the statement and its text (the newline that \<open>print\<close> appends left out), and
  each call of a collaborator with its arguments. Standard output is the texts of the
  \<open>Print\<close> events. Writing to standard output is taken not to raise.
\<close>

datatype event =
    Print nat string
  | Construct string string
  | Fetch string
  | Create string "message list"

record 'w state =
  globals :: config
  trace :: "event list"
  world :: 'w

definition print :: "nat \<Rightarrow> string \<Rightarrow> 'w state \<Rightarrow> 'w state" where
  "print line s st = st\<lparr>trace := trace st @ [Print line s]\<rparr>"

definition prints :: "(nat \<times> string) list \<Rightarrow> 'w state \<Rightarrow> 'w state" where
  \<comment> \<open>consecutive \<open>print\<close> statements\<close>
  "prints ls st = fold (\<lambda>(line, s). print line s) ls st"

definition call_OpenAI :: "('w, 'c) env \<Rightarrow> string \<Rightarrow> string \<Rightarrow> 'w state \<Rightarrow> (exn + 'c) \<times> 'w state" where
  "call_OpenAI env base_url api_key st =
     (case OpenAI env base_url api_key (world st) of
        (r, w) \<Rightarrow> (r, st\<lparr>trace := trace st @ [Construct base_url api_key], world := w\<rparr>))"

definition call_fetch_website_contents :: "('w, 'c) env \<Rightarrow> string \<Rightarrow> 'w state \<Rightarrow> (exn + string) \<times> 'w state" where
  "call_fetch_website_contents env url st =
     (case fetch_website_contents env url (world st) of
        (r, w) \<Rightarrow> (r, st\<lparr>trace := trace st @ [Fetch url], world := w\<rparr>))"

definition call_chat_completions_create ::
  "('w, 'c) env \<Rightarrow> 'c \<Rightarrow> string \<Rightarrow> message list \<Rightarrow> 'w state \<Rightarrow> (exn + chat_completion) \<times> 'w state" where
  "call_chat_completions_create env client model messages st =
     (case chat_completions_create env client model messages (world st) of
        (r, w) \<Rightarrow> (r, st\<lparr>trace := trace st @ [Create model messages], world := w\<rparr>))"

subsection \<open>The functions of the script\<close>

text \<open>
  Every function takes the state and returns its result, or the exception it raises,
  with the state it leaves. \<open>main\<close> is cut into its consecutive parts: the resolution
  of the URL list (lines 99 to 112), the construction of the client (lines 114 to 125),
  the loop (lines 128 to 136) with its body, and the closing prints (lines 138 to 146).
\<close>

definition create_ollama_client :: "('w, 'c) env \<Rightarrow> 'w state \<Rightarrow> (exn + 'c) \<times> 'w state" where
  \<comment> \<open>lines 41 to 51\<close>
  "create_ollama_client env st = call_OpenAI env (OLLAMA_BASE_URL (globals st)) ''ollama'' st"

definition create_messages :: "string \<Rightarrow> 'w state \<Rightarrow> (exn + message list) \<times> 'w state" where
  \<comment> \<open>lines 54 to 67\<close>
  "create_messages website_content st =
     (Inr [[(''role'', ''system''), (''content'', SYSTEM_PROMPT (globals st))],
           [(''role'', ''user''), (''content'', USER_PROMPT_PREFIX (globals st) @ website_content)]],
      st)"

definition summarize_website ::
  "('w, 'c) env \<Rightarrow> string \<Rightarrow> 'c \<Rightarrow> 'w state \<Rightarrow> (exn + string option) \<times> 'w state" where
  \<comment> \<open>lines 70 to 92; \<open>choices[0]\<close> of an empty list raises \<open>IndexError\<close>\<close>
  "summarize_website env url client st =
     (let st1 = print 81 (''Fetching website content from: '' @ url) st in
      case call_fetch_website_contents env url st1 of
        (Inl e, st2) \<Rightarrow> (Inl e, st2)
      | (Inr website_content, st2) \<Rightarrow>
          (let st3 = print 84 (''Generating summary using '' @ MODEL (globals st2) @ ''...'') st2 in
           case create_messages website_content st3 of
             (Inl e, st4) \<Rightarrow> (Inl e, st4)
           | (Inr messages, st4) \<Rightarrow>
               (case call_chat_completions_create env client (MODEL (globals st4)) messages st4 of
                  (Inl e, st5) \<Rightarrow> (Inl e, st5)
                | (Inr response, st5) \<Rightarrow>
                    (case choices response of
                       [] \<Rightarrow> (Inl (Exception ''list index out of range''), st5)
                     | c # _ \<Rightarrow> (Inr (content (message c)), st5)))))"

definition default_urls :: "string list" where
  \<comment> \<open>lines 100 to 104\<close>
  "default_urls = [''https://edwarddonner.com'', ''https://anthropic.com'', ''https://cnn.com'']"

definition main_resolve_urls :: "string list \<Rightarrow> 'w state \<Rightarrow> string list \<times> 'w state" where
  \<comment> \<open>lines 106 to 112; \<open>argv\<close> is \<open>sys.argv\<close>, the script's name first\<close>
  "main_resolve_urls argv st =
     (if length argv > 1 then ([argv ! 1], st)
      else (default_urls, print 111 (''No URL provided. Summarizing default websites...'' @ nl) st))"

definition main_connect :: "('w, 'c) env \<Rightarrow> 'w state \<Rightarrow> (exn + 'c) \<times> 'w state" where
  \<comment> \<open>lines 114 to 125; \<open>sys.exit(1)\<close> raises \<open>SystemExit(1)\<close>\<close>
  "main_connect env st =
     (case create_ollama_client env st of
        (Inr client, st1) \<Rightarrow>
          (Inr client,
           prints
             [(117, check_mark @ '' Connected to Ollama at '' @ OLLAMA_BASE_URL (globals st1)),
              (118, check_mark @ '' Using model: '' @ MODEL (globals st1) @ nl)] st1)
      | (Inl (Exception e), st1) \<Rightarrow>
          (Inl (SystemExit 1),
           prints
             [(120, ballot_x @ '' Error connecting to Ollama: '' @ e),
              (121, nl @ ''Make sure Ollama is running:''),
              (122, ''  1. Visit http://localhost:11434 to check if Ollama is running''),
              (123, ''  2. If not, run 'ollama serve' in a terminal''),
              (124, ''  3. Pull the model with 'ollama pull '' @ MODEL (globals st1) @ [CHR 0x27])] st1)
      | (Inl (SystemExit n), st1) \<Rightarrow> (Inl (SystemExit n), st1))"

definition main_loop_body :: "('w, 'c) env \<Rightarrow> 'c \<Rightarrow> string \<Rightarrow> 'w state \<Rightarrow> (exn + unit) \<times> 'w state" where
  \<comment> \<open>lines 129 to 136, one iteration\<close>
  "main_loop_body env client url st =
     (let st1 = print 129 (replicate 70 CHR ''='') st in
      case summarize_website env url client st1 of
        (Inr summary, st2) \<Rightarrow>
          (Inr (),
           prints
             [(132, nl @ page_facing_up @ '' Summary of '' @ url @ '':'' @ nl),
              (133, py_str summary),
              (134, '''')] st2)
      | (Inl (Exception e), st2) \<Rightarrow>
          (Inr (), print 136 (ballot_x @ '' Error summarizing '' @ url @ '': '' @ e @ nl) st2)
      | (Inl (SystemExit n), st2) \<Rightarrow> (Inl (SystemExit n), st2))"

fun main_loop :: "('w, 'c) env \<Rightarrow> 'c \<Rightarrow> string list \<Rightarrow> 'w state \<Rightarrow> (exn + unit) \<times> 'w state" where
  \<comment> \<open>line 128\<close>
  "main_loop env client [] st = (Inr (), st)"
| "main_loop env client (url # urls) st =
     (case main_loop_body env client url st of
        (Inl e, st1) \<Rightarrow> (Inl e, st1)
      | (Inr u, st1) \<Rightarrow> main_loop env client urls st1)"

definition main_closing :: "'w state \<Rightarrow> 'w state" where
  \<comment> \<open>lines 138 to 146\<close>
  "main_closing st =
     prints
       [(138, replicate 70 CHR ''=''),
        (139, nl @ check_mark @ '' Done!''),
        (140, nl @ ''Benefits of using Ollama:''),
        (141, ''  '' @ bullet @ '' No API charges - completely free''),
        (142, ''  '' @ bullet @ '' Data stays on your machine - privacy''),
        (143, ''  '' @ bullet @ '' Works offline''),
        (144, nl @ ''Trade-offs:''),
        (145, ''  '' @ bullet @ '' Less powerful than frontier models like GPT-4''),
        (146, ''  '' @ bullet @ '' Slower on consumer hardware'')] st"

definition main_run :: "('w, 'c) env \<Rightarrow> string list \<Rightarrow> 'w state \<Rightarrow> (exn + unit) \<times> 'w state" where
  \<comment> \<open>lines 114 to 146: \<open>main\<close> once \<open>urls_to_summarize\<close> is set\<close>
  "main_run env urls_to_summarize st =
     (case main_connect env st of
        (Inl e, st1) \<Rightarrow> (Inl e, st1)
      | (Inr client, st1) \<Rightarrow>
          (case main_loop env client urls_to_summarize st1 of
             (Inl e, st2) \<Rightarrow> (Inl e, st2)
           | (Inr u, st2) \<Rightarrow> (Inr (), main_closing st2)))"

definition main :: "('w, 'c) env \<Rightarrow> string list \<Rightarrow> 'w state \<Rightarrow> (exn + unit) \<times> 'w state" where
  \<comment> \<open>lines 95 to 146\<close>
  "main env argv st =
     (case main_resolve_urls argv st of
        (urls_to_summarize, st1) \<Rightarrow> main_run env urls_to_summarize st1)"

definition script :: "('w, 'c) env \<Rightarrow> string list \<Rightarrow> 'w \<Rightarrow> (exn + unit) \<times> 'w state" where
  \<comment> \<open>the module run as a script: the globals are bound, then line 150 calls \<open>main\<close>\<close>
  "script env argv w = main env argv \<lparr>globals = module_globals, trace = [], world = w\<rparr>"

definition exit_code :: "exn + unit \<Rightarrow> int" where
  \<comment> \<open>the interpreter's exit status: 0 when the script ends, the argument of
      \<open>sys.exit\<close>, 1 after a traceback\<close>
  "exit_code r = (case r of Inr u \<Rightarrow> 0 | Inl (SystemExit n) \<Rightarrow> n | Inl (Exception e) \<Rightarrow> 1)"

subsection \<open>Observations on a trace\<close>

text \<open>
  The definitions of this subsection are not code of the script: they read a trace, or
  name the result of each iteration of the loop, so that the properties can be stated.
\<close>

primrec fetched :: "event list \<Rightarrow> string list" where
  \<comment> \<open>the URLs given to the fetcher, in order\<close>
  "fetched [] = []"
| "fetched (ev # evs) = (case ev of Fetch url \<Rightarrow> url # fetched evs | _ \<Rightarrow> fetched evs)"

primrec created :: "event list \<Rightarrow> (string \<times> message list) list" where
  \<comment> \<open>the model and the messages of the chat completions called, in order\<close>
  "created [] = []"
| "created (ev # evs) = (case ev of Create model ms \<Rightarrow> (model, ms) # created evs | _ \<Rightarrow> created evs)"

primrec printed_at :: "nat \<Rightarrow> event list \<Rightarrow> string list" where
  \<comment> \<open>the texts printed by the \<open>print\<close> statement of one source line, in order\<close>
  "printed_at line [] = []"
| "printed_at line (ev # evs) =
     (case ev of Print l s \<Rightarrow> (if l = line then s # printed_at line evs else printed_at line evs)
      | _ \<Rightarrow> printed_at line evs)"

fun is_attempt_or_report :: "event \<Rightarrow> bool" where
  \<comment> \<open>a fetch, or a print that reports the result for a URL: the summary (lines 132 to
      134) or the error (line 136)\<close>
  "is_attempt_or_report (Fetch url) = True"
| "is_attempt_or_report (Print line s) = (line = 132 \<or> line = 133 \<or> line = 134 \<or> line = 136)"
| "is_attempt_or_report ev = False"

definition report_events :: "string \<Rightarrow> exn + string option \<Rightarrow> event list" where
  \<comment> \<open>what lines 132 to 136 print for a URL, given the result of its summarization\<close>
  "report_events url r =
     (case r of
        Inr summary \<Rightarrow>
          [Print 132 (nl @ page_facing_up @ '' Summary of '' @ url @ '':'' @ nl),
           Print 133 (py_str summary),
           Print 134 '''']
      | Inl (Exception e) \<Rightarrow> [Print 136 (ballot_x @ '' Error summarizing '' @ url @ '': '' @ e @ nl)]
      | Inl (SystemExit n) \<Rightarrow> [])"

fun is_SystemExit :: "exn + 'a \<Rightarrow> bool" where
  "is_SystemExit (Inl (SystemExit n)) = True"
| "is_SystemExit r = False"

fun main_loop_results :: "('w, 'c) env \<Rightarrow> 'c \<Rightarrow> string list \<Rightarrow> 'w state \<Rightarrow> (exn + string option) list" where
  \<comment> \<open>what the call of \<open>summarize_website\<close> on line 131 returns or raises in each
      iteration of a run of the loop, in order; the list ends where the loop is left\<close>
  "main_loop_results env client [] st = []"
| "main_loop_results env client (url # urls) st =
     fst (summarize_website env url client (print 129 (replicate 70 CHR ''='') st)) #
     (case main_loop_body env client url st of
        (Inl e, st1) \<Rightarrow> []
      | (Inr u, st1) \<Rightarrow> main_loop_results env client urls st1)"

fun uses_globals :: "config \<Rightarrow> event \<Rightarrow> bool" where
  \<comment> \<open>a call of a collaborator carries the values of the globals \<open>g\<close>: the base URL of
      the client; the model, the system prompt and the user prompt prefix of a chat
      completion\<close>
  "uses_globals g (Construct base_url api_key) = (base_url = OLLAMA_BASE_URL g)"
| "uses_globals g (Create model ms) =
     (model = MODEL g \<and>
      (case ms of
         [sys, usr] \<Rightarrow>
           map_of sys ''content'' = Some (SYSTEM_PROMPT g) \<and>
           (case map_of usr ''content'' of
              Some text \<Rightarrow> prefix (USER_PROMPT_PREFIX g) text
            | None \<Rightarrow> False)
       | _ \<Rightarrow> False))"
| "uses_globals g ev = True"

subsection \<open>Example environments\<close>

text \<open>
  Collaborators for concrete runs. The world counts the fetches: the second fetch times
  out, every other returns the page text. The client is constructed, and the chat
  completion answers with one choice.
\<close>

definition mock_env :: "(nat, unit) env" where
  "mock_env =
     \<lparr> fetch_website_contents =
         (\<lambda>url w. (if w = 1 then Inl (Exception ''timed out'') else Inr ''Hello world'', Suc w)),
       OpenAI = (\<lambda>base_url api_key w. (Inr (), w)),
       chat_completions_create =
         (\<lambda>client model messages w.
            (Inr \<lparr>choices = [\<lparr>message = \<lparr>content = Some (''# Summary'' @ nl @ ''Hello.'')\<rparr>\<rparr>]\<rparr>, w)) \<rparr>"

definition mock_env_no_endpoint :: "(nat, unit) env" where
  "mock_env_no_endpoint = mock_env\<lparr>OpenAI := (\<lambda>base_url api_key w. (Inl (Exception ''Connection refused''), w))\<rparr>"

definition mock_env_no_choices :: "(nat, unit) env" where
  "mock_env_no_choices = mock_env\<lparr>chat_completions_create := (\<lambda>client model messages w. (Inr \<lparr>choices = []\<rparr>, w))\<rparr>"

definition start :: "nat state" where
  "start = \<lparr>globals = module_globals, trace = [], world = 0\<rparr>"

section \<open>Properties\<close>

subsection \<open>Effects of the primitives\<close>

lemma print_fields [simp]:
  "trace (print line s st) = trace st @ [Print line s]"
  "globals (print line s st) = globals st"
  "world (print line s st) = world st"
  by (simp_all add: print_def)

lemma prints_simps [simp]:
  "prints [] st = st"
  "prints ((line, s) # ls) st = prints ls (print line s st)"
  by (simp_all add: prints_def)

lemma prints_trace [simp]: "trace (prints ls st) = trace st @ map (\<lambda>(line, s). Print line s) ls"
  by (induction ls arbitrary: st) (auto simp: prints_def)

lemma prints_globals [simp]: "globals (prints ls st) = globals st"
  by (induction ls arbitrary: st) (auto simp: prints_def)

lemma prints_world [simp]: "world (prints ls st) = world st"
  by (induction ls arbitrary: st) (auto simp: prints_def)

lemma call_OpenAI_fields [simp]:
  "fst (call_OpenAI env b k st) = fst (OpenAI env b k (world st))"
  "trace (snd (call_OpenAI env b k st)) = trace st @ [Construct b k]"
  "globals (snd (call_OpenAI env b k st)) = globals st"
  "world (snd (call_OpenAI env b k st)) = snd (OpenAI env b k (world st))"
  by (simp_all add: call_OpenAI_def case_prod_beta)

lemma call_fetch_fields [simp]:
  "fst (call_fetch_website_contents env url st) = fst (fetch_website_contents env url (world st))"
  "trace (snd (call_fetch_website_contents env url st)) = trace st @ [Fetch url]"
  "globals (snd (call_fetch_website_contents env url st)) = globals st"
  "world (snd (call_fetch_website_contents env url st)) = snd (fetch_website_contents env url (world st))"
  by (simp_all add: call_fetch_website_contents_def case_prod_beta)

lemma call_create_fields [simp]:
  "fst (call_chat_completions_create env c m ms st) = fst (chat_completions_create env c m ms (world st))"
  "trace (snd (call_chat_completions_create env c m ms st)) = trace st @ [Create m ms]"
  "globals (snd (call_chat_completions_create env c m ms st)) = globals st"
  "world (snd (call_chat_completions_create env c m ms st)) = snd (chat_completions_create env c m ms (world st))"
  by (simp_all add: call_chat_completions_create_def case_prod_beta)

lemma fetched_append [simp]: "fetched (xs @ ys) = fetched xs @ fetched ys"
  by (induction xs) (auto split: event.splits)

lemma printed_at_append [simp]: "printed_at line (xs @ ys) = printed_at line xs @ printed_at line ys"
  by (induction xs) (auto split: event.splits)

lemma created_append [simp]: "created (xs @ ys) = created xs @ created ys"
  by (induction xs) (auto split: event.splits)

lemmas model_defs =
  main_run_def main_connect_def create_ollama_client_def call_OpenAI_def main_loop_body_def
  summarize_website_def call_fetch_website_contents_def create_messages_def
  call_chat_completions_create_def main_closing_def main_resolve_urls_def main_def
  print_def prints_def exit_code_def default_urls_def py_str_def

subsection \<open>The prompt\<close>

text \<open>
  C1. For every content string, the empty one included, \<open>create_messages\<close> returns
  exactly two messages, each with the keys "role" and "content": the first has role
  "system" and the system prompt of the module as content, the second has role "user"
  and as content the user prompt prefix followed by the input, so it ends with the
  input.
\<close>

theorem create_messages_shape:
  "\<exists>sys usr.
     fst (create_messages c (st\<lparr>globals := module_globals\<rparr>)) = Inr [sys, usr] \<and>
     map fst sys = [''role'', ''content''] \<and>
     map fst usr = [''role'', ''content''] \<and>
     map_of sys ''role'' = Some ''system'' \<and>
     map_of sys ''content'' = Some (SYSTEM_PROMPT module_globals) \<and>
     map_of usr ''role'' = Some ''user'' \<and>
     map_of usr ''content'' = Some (USER_PROMPT_PREFIX module_globals @ c) \<and>
     suffix c (USER_PROMPT_PREFIX module_globals @ c)"
  by (simp add: create_messages_def suffix_def)

text \<open>
  C8. \<open>create_messages\<close> is pure: it leaves the state (the trace, the world, the
  globals) as it was, it never raises, and its result depends on the input string and
  the globals only, so two calls with equal strings return equal lists.
\<close>

theorem create_messages_pure:
  "snd (create_messages c st) = st \<and>
   (\<exists>ms. fst (create_messages c st) = Inr ms) \<and>
   fst (create_messages c (st2\<lparr>globals := globals st\<rparr>)) = fst (create_messages c st)"
  by (simp add: create_messages_def)

subsection \<open>The summarizer\<close>

lemma summarize_website_unfold:
  "summarize_website env url client st =
     (case fetch_website_contents env url (world st) of
        (Inl e, w1) \<Rightarrow>
          (Inl e, st\<lparr>trace := trace st @ [Print 81 (''Fetching website content from: '' @ url), Fetch url], world := w1\<rparr>)
      | (Inr c, w1) \<Rightarrow>
          (case fst (create_messages c st) of
             Inl e \<Rightarrow>
               (Inl e, st\<lparr>trace := trace st @
                  [Print 81 (''Fetching website content from: '' @ url), Fetch url,
                   Print 84 (''Generating summary using '' @ MODEL (globals st) @ ''...'')], world := w1\<rparr>)
           | Inr ms \<Rightarrow>
               (case chat_completions_create env client (MODEL (globals st)) ms w1 of
                  (r, w2) \<Rightarrow>
                    (case r of
                       Inl e \<Rightarrow> Inl e
                     | Inr response \<Rightarrow>
                         (case choices response of
                            [] \<Rightarrow> Inl (Exception ''list index out of range'')
                          | ch # _ \<Rightarrow> Inr (content (message ch))),
                     st\<lparr>trace := trace st @
                       [Print 81 (''Fetching website content from: '' @ url), Fetch url,
                        Print 84 (''Generating summary using '' @ MODEL (globals st) @ ''...''),
                        Create (MODEL (globals st)) ms], world := w2\<rparr>))))"
  by (simp add: summarize_website_def create_messages_def call_fetch_website_contents_def
      call_chat_completions_create_def Let_def split: prod.splits sum.splits list.splits)

text \<open>
  C5. \<open>summarize_website\<close> is the composition of its three steps. It calls the fetcher
  once on the URL; a failure of the fetch is returned as it is and nothing else is
  called. Otherwise it builds the messages from the fetched text with
  \<open>create_messages\<close> and calls the chat completion once, with the model of the module
  and these messages; a failure of that call is returned as it is. Otherwise the result
  is the content of the message of the first choice of the response. No step is tried
  twice: the trace holds one \<open>Fetch\<close> and at most one \<open>Create\<close>.
\<close>

theorem summarize_website_composition:
  "(case fetch_website_contents env url (world st) of
      (Inl e, w1) \<Rightarrow>
        summarize_website env url client st =
          (Inl e, st\<lparr>trace := trace st @
             [Print 81 (''Fetching website content from: '' @ url), Fetch url], world := w1\<rparr>)
    | (Inr c, w1) \<Rightarrow>
        (case fst (create_messages c st) of
           Inl e \<Rightarrow> fst (summarize_website env url client st) = Inl e
         | Inr ms \<Rightarrow>
             (case chat_completions_create env client (MODEL (globals st)) ms w1 of
                (r, w2) \<Rightarrow>
                  snd (summarize_website env url client st) =
                    st\<lparr>trace := trace st @
                       [Print 81 (''Fetching website content from: '' @ url), Fetch url,
                        Print 84 (''Generating summary using '' @ MODEL (globals st) @ ''...''),
                        Create (MODEL (globals st)) ms], world := w2\<rparr> \<and>
                  fst (summarize_website env url client st) =
                    (case r of
                       Inl e \<Rightarrow> Inl e
                     | Inr response \<Rightarrow>
                         (case choices response of
                            [] \<Rightarrow> Inl (Exception ''list index out of range'')
                          | ch # _ \<Rightarrow> Inr (content (message ch)))))))"
  by (simp add: summarize_website_unfold split: prod.splits sum.splits)

text \<open>A run on the example environment, where the fetch succeeds, and one where it fails.\<close>

theorem summarize_website_composition_witness:
  "summarize_website mock_env ''https://example.com'' () start =
     (Inr (Some (''# Summary'' @ nl @ ''Hello.'')),
      start\<lparr>trace :=
        [Print 81 ''Fetching website content from: https://example.com'',
         Fetch ''https://example.com'',
         Print 84 ''Generating summary using llama3.2...'',
         Create ''llama3.2''
           [[(''role'', ''system''), (''content'', SYSTEM_PROMPT module_globals)],
            [(''role'', ''user''), (''content'', USER_PROMPT_PREFIX module_globals @ ''Hello world'')]]],
        world := 1\<rparr>) \<and>
   summarize_website mock_env ''https://example.com'' () (start\<lparr>world := 1\<rparr>) =
     (Inl (Exception ''timed out''),
      start\<lparr>trace :=
        [Print 81 ''Fetching website content from: https://example.com'',
         Fetch ''https://example.com''],
        world := 2\<rparr>)"
proof -
  have "summarize_website mock_env ''https://example.com'' () start =
     (Inr (Some (''# Summary'' @ nl @ ''Hello.'')),
      start\<lparr>trace :=
        [Print 81 ''Fetching website content from: https://example.com'',
         Fetch ''https://example.com'',
         Print 84 ''Generating summary using llama3.2...'',
         Create ''llama3.2''
           [[(''role'', ''system''), (''content'', SYSTEM_PROMPT module_globals)],
            [(''role'', ''user''), (''content'', USER_PROMPT_PREFIX module_globals @ ''Hello world'')]]],
        world := 1\<rparr>)"
    using summarize_website_composition
      [where env = mock_env and url = "''https://example.com''" and st = start and client = "()"]
    by (simp add: mock_env_def start_def create_messages_def module_globals_def prod_eq_iff)
  moreover have "summarize_website mock_env ''https://example.com'' () (start\<lparr>world := 1\<rparr>) =
     (Inl (Exception ''timed out''),
      start\<lparr>trace :=
        [Print 81 ''Fetching website content from: https://example.com'',
         Fetch ''https://example.com''],
        world := 2\<rparr>)"
    using summarize_website_composition
      [where env = mock_env and url = "''https://example.com''" and st = "start\<lparr>world := 1\<rparr>"
         and client = "()"]
    by (simp add: mock_env_def start_def)
  ultimately show ?thesis by simp
qed

lemma summarize_website_fetched:
  "fetched (trace (snd (summarize_website env url client st))) = fetched (trace st) @ [url]"
  by (simp add: summarize_website_unfold Let_def split: prod.splits sum.splits list.splits)

lemma summarize_website_observed:
  "filter is_attempt_or_report (trace (snd (summarize_website env url client st))) =
   filter is_attempt_or_report (trace st) @ [Fetch url]"
  by (simp add: summarize_website_unfold Let_def split: prod.splits sum.splits list.splits)

lemma summarize_website_printed_at:
  "line \<noteq> 81 \<Longrightarrow> line \<noteq> 84 \<Longrightarrow>
   printed_at line (trace (snd (summarize_website env url client st))) = printed_at line (trace st)"
  by (simp add: summarize_website_unfold Let_def split: prod.splits sum.splits list.splits)

subsection \<open>One iteration of the loop\<close>

lemma main_loop_body_cases:
  "main_loop_body env client url st =
     (case summarize_website env url client (print 129 (replicate 70 CHR ''='') st) of
        (r, st2) \<Rightarrow>
          (case r of Inl (SystemExit n) \<Rightarrow> Inl (SystemExit n) | _ \<Rightarrow> Inr (),
           st2\<lparr>trace := trace st2 @ report_events url r\<rparr>))"
  by (simp add: main_loop_body_def report_events_def Let_def split: prod.splits sum.splits exn.splits)

lemma main_loop_body_fst:
  "fst (main_loop_body env client url st) =
     (case fst (summarize_website env url client (print 129 (replicate 70 CHR ''='') st)) of
        Inl (SystemExit n) \<Rightarrow> Inl (SystemExit n) | _ \<Rightarrow> Inr ())"
  by (simp add: main_loop_body_cases case_prod_beta)

lemma main_loop_body_fst_Inr:
  "\<not> is_SystemExit (fst (summarize_website env url client (print 129 (replicate 70 CHR ''='') st))) \<Longrightarrow>
   fst (main_loop_body env client url st) = Inr ()"
  by (auto simp: main_loop_body_fst split: sum.splits exn.splits)

lemma main_loop_body_trace:
  "trace (snd (main_loop_body env client url st)) =
     trace (snd (summarize_website env url client (print 129 (replicate 70 CHR ''='') st))) @
     report_events url (fst (summarize_website env url client (print 129 (replicate 70 CHR ''='') st)))"
  by (simp add: main_loop_body_cases case_prod_beta)

lemma main_loop_body_observed:
  "filter is_attempt_or_report (trace (snd (main_loop_body env client url st))) =
   filter is_attempt_or_report (trace st) @
   Fetch url # report_events url (fst (summarize_website env url client (print 129 (replicate 70 CHR ''='') st)))"
  by (simp add: main_loop_body_trace summarize_website_observed)
     (simp add: report_events_def split: sum.splits exn.splits)

lemma main_loop_body_fetched:
  "fetched (trace (snd (main_loop_body env client url st))) = fetched (trace st) @ [url]"
  by (simp add: main_loop_body_trace summarize_website_fetched)
     (simp add: report_events_def split: sum.splits exn.splits)

lemma main_loop_body_printed_at:
  "line \<noteq> 81 \<Longrightarrow> line \<noteq> 84 \<Longrightarrow> line \<noteq> 129 \<Longrightarrow>
   printed_at line (trace (snd (main_loop_body env client url st))) =
   printed_at line (trace st) @
   printed_at line (report_events url (fst (summarize_website env url client (print 129 (replicate 70 CHR ''='') st))))"
  by (simp add: main_loop_body_trace summarize_website_printed_at)

text \<open>
  C10. \<open>summarize_website\<close> takes \<open>choices[0]\<close> without a guard. When the fetch and
  the chat completion succeed and the response has a choice, the result is the content
  of the first choice's message. When the response has no choice, the operation raises
  the \<open>IndexError\<close> of the empty list, an \<open>Exception\<close>: the loop body catches it,
  prints the error line of line 136 for this URL and the loop goes on with the URLs
  that remain.
\<close>

theorem summarize_website_first_choice:
  assumes "fetch_website_contents env url (world st) = (Inr c, w1)"
      and "create_messages c st = (Inr ms, st)"
      and "chat_completions_create env client (MODEL (globals st)) ms w1 = (Inr response, w2)"
  shows "case choices response of
           ch # _ \<Rightarrow> fst (summarize_website env url client st) = Inr (content (message ch))
         | [] \<Rightarrow>
             fst (summarize_website env url client st) = Inl (Exception ''list index out of range'') \<and>
             (\<exists>st1. main_loop_body env client url st = (Inr (), st1) \<and>
                trace st1 = trace st @
                  [Print 129 (replicate 70 CHR ''=''),
                   Print 81 (''Fetching website content from: '' @ url), Fetch url,
                   Print 84 (''Generating summary using '' @ MODEL (globals st) @ ''...''),
                   Create (MODEL (globals st)) ms,
                   Print 136 (ballot_x @ '' Error summarizing '' @ url @ '': list index out of range'' @ nl)] \<and>
                main_loop env client (url # urls) st = main_loop env client urls st1)"
proof (cases "choices response")
  case Nil
  have ms: "fst (create_messages c (print 129 (replicate 70 CHR ''='') st)) = Inr ms"
    using assms(2) by (simp add: create_messages_def)
  have "fst (summarize_website env url client st) = Inl (Exception ''list index out of range'')"
    using assms Nil by (simp add: summarize_website_unfold)
  moreover have "\<exists>st1. main_loop_body env client url st = (Inr (), st1) \<and>
                trace st1 = trace st @
                  [Print 129 (replicate 70 CHR ''=''),
                   Print 81 (''Fetching website content from: '' @ url), Fetch url,
                   Print 84 (''Generating summary using '' @ MODEL (globals st) @ ''...''),
                   Create (MODEL (globals st)) ms,
                   Print 136 (ballot_x @ '' Error summarizing '' @ url @ '': list index out of range'' @ nl)] \<and>
                main_loop env client (url # urls) st = main_loop env client urls st1"
    using assms(1,3) Nil ms
    by (simp add: main_loop_body_cases summarize_website_unfold report_events_def)
  ultimately show ?thesis using Nil by simp
next
  case (Cons ch rest)
  then show ?thesis using assms by (simp add: summarize_website_unfold)
qed

text \<open>Both cases, on an environment whose response has one choice and one whose response has none.\<close>

theorem summarize_website_first_choice_witness:
  "fst (summarize_website mock_env ''https://example.com'' () start) =
     Inr (Some (''# Summary'' @ nl @ ''Hello.'')) \<and>
   fst (summarize_website mock_env_no_choices ''https://example.com'' () start) =
     Inl (Exception ''list index out of range'') \<and>
   fst (main_loop_body mock_env_no_choices () ''https://example.com'' start) = Inr () \<and>
   printed_at 136 (trace (snd (main_loop_body mock_env_no_choices () ''https://example.com'' start))) =
     [ballot_x @ '' Error summarizing https://example.com: list index out of range'' @ nl]"
proof -
  let ?url = "''https://example.com''"
  let ?ms = "[[(''role'', ''system''), (''content'', SYSTEM_PROMPT module_globals)],
              [(''role'', ''user''), (''content'', USER_PROMPT_PREFIX module_globals @ ''Hello world'')]]"
  have f1: "fetch_website_contents mock_env ?url (world start) = (Inr ''Hello world'', 1)"
    by (simp add: mock_env_def start_def)
  have f2: "fetch_website_contents mock_env_no_choices ?url (world start) = (Inr ''Hello world'', 1)"
    by (simp add: mock_env_no_choices_def mock_env_def start_def)
  have m: "create_messages ''Hello world'' start = (Inr ?ms, start)"
    by (simp add: create_messages_def start_def)
  have c1: "chat_completions_create mock_env () (MODEL (globals start)) ?ms 1 =
      (Inr \<lparr>choices = [\<lparr>message = \<lparr>content = Some (''# Summary'' @ nl @ ''Hello.'')\<rparr>\<rparr>]\<rparr>, 1)"
    by (simp add: mock_env_def)
  have c2: "chat_completions_create mock_env_no_choices () (MODEL (globals start)) ?ms 1 =
      (Inr \<lparr>choices = []\<rparr>, 1)"
    by (simp add: mock_env_no_choices_def mock_env_def)
  have a: "fst (summarize_website mock_env ?url () start) = Inr (Some (''# Summary'' @ nl @ ''Hello.''))"
    using summarize_website_first_choice [OF f1 m c1] by simp
  from summarize_website_first_choice [OF f2 m c2, of "[]"]
  obtain st1 where b: "fst (summarize_website mock_env_no_choices ?url () start) =
        Inl (Exception ''list index out of range'')"
    and body: "main_loop_body mock_env_no_choices () ?url start = (Inr (), st1)"
    and tr: "trace st1 = trace start @
                  [Print 129 (replicate 70 CHR ''=''),
                   Print 81 (''Fetching website content from: '' @ ?url), Fetch ?url,
                   Print 84 (''Generating summary using '' @ MODEL (globals start) @ ''...''),
                   Create (MODEL (globals start)) ?ms,
                   Print 136 (ballot_x @ '' Error summarizing '' @ ?url @ '': list index out of range'' @ nl)]"
    by auto
  have p: "printed_at 136 (trace st1) =
      [ballot_x @ '' Error summarizing https://example.com: list index out of range'' @ nl]"
    unfolding tr by (simp add: start_def)
  show ?thesis using a b body p by simp
qed

subsection \<open>The connection\<close>

lemma main_connect_unfold:
  "main_connect env st =
     (case OpenAI env (OLLAMA_BASE_URL (globals st)) ''ollama'' (world st) of
        (r, w) \<Rightarrow>
          (let st1 = st\<lparr>trace := trace st @ [Construct (OLLAMA_BASE_URL (globals st)) ''ollama''], world := w\<rparr> in
           case r of
             Inr client \<Rightarrow>
               (Inr client, st1\<lparr>trace := trace st1 @
                  [Print 117 (check_mark @ '' Connected to Ollama at '' @ OLLAMA_BASE_URL (globals st)),
                   Print 118 (check_mark @ '' Using model: '' @ MODEL (globals st) @ nl)]\<rparr>)
           | Inl (Exception e) \<Rightarrow>
               (Inl (SystemExit 1), st1\<lparr>trace := trace st1 @
                  [Print 120 (ballot_x @ '' Error connecting to Ollama: '' @ e),
                   Print 121 (nl @ ''Make sure Ollama is running:''),
                   Print 122 ''  1. Visit http://localhost:11434 to check if Ollama is running'',
                   Print 123 ''  2. If not, run 'ollama serve' in a terminal'',
                   Print 124 (''  3. Pull the model with 'ollama pull '' @ MODEL (globals st) @ [CHR 0x27])]\<rparr>)
           | Inl (SystemExit n) \<Rightarrow> (Inl (SystemExit n), st1)))"
  by (simp add: main_connect_def create_ollama_client_def call_OpenAI_def Let_def print_def
      split: prod.splits sum.splits exn.splits)

lemma main_connect_fetched: "fetched (trace (snd (main_connect env st))) = fetched (trace st)"
  by (simp add: main_connect_unfold Let_def split: prod.splits sum.splits exn.splits)

lemma main_connect_printed_at:
  "line \<notin> {117, 118, 120, 121, 122, 123, 124} \<Longrightarrow>
   printed_at line (trace (snd (main_connect env st))) = printed_at line (trace st)"
  by (simp add: main_connect_unfold Let_def split: prod.splits sum.splits exn.splits)

text \<open>
  C3. When the construction of the client raises an \<open>Exception\<close>, \<open>main\<close> prints
  the error and the four lines of the remediation message (lines 120 to 124) and
  raises \<open>SystemExit(1)\<close>: the exit code is 1. After the argument resolution the trace
  holds the construction and these prints only: no URL is fetched and no chat
  completion is called.
\<close>

theorem main_connection_failure:
  assumes "OpenAI env (OLLAMA_BASE_URL (globals st)) ''ollama'' (world st) = (Inl (Exception e), w)"
  shows "\<exists>st'. main env argv st = (Inl (SystemExit 1), st') \<and>
           exit_code (fst (main env argv st)) = 1 \<and>
           trace st' = trace (snd (main_resolve_urls argv st)) @
             [Construct (OLLAMA_BASE_URL (globals st)) ''ollama'',
              Print 120 (ballot_x @ '' Error connecting to Ollama: '' @ e),
              Print 121 (nl @ ''Make sure Ollama is running:''),
              Print 122 ''  1. Visit http://localhost:11434 to check if Ollama is running'',
              Print 123 ''  2. If not, run 'ollama serve' in a terminal'',
              Print 124 (''  3. Pull the model with 'ollama pull '' @ MODEL (globals st) @ [CHR 0x27])] \<and>
           fetched (trace st') = fetched (trace st) \<and>
           created (trace st') = created (trace st)"
  using assms
  by (simp add: main_def main_run_def main_connect_unfold main_resolve_urls_def exit_code_def)

text \<open>A run with no argument on an environment whose client construction fails.\<close>

theorem main_connection_failure_witness:
  "OpenAI mock_env_no_endpoint (OLLAMA_BASE_URL (globals start)) ''ollama'' (world start) =
     (Inl (Exception ''Connection refused''), 0) \<and>
   fst (main mock_env_no_endpoint [''claude_solution.py''] start) = Inl (SystemExit 1) \<and>
   exit_code (fst (main mock_env_no_endpoint [''claude_solution.py''] start)) = 1 \<and>
   trace (snd (main mock_env_no_endpoint [''claude_solution.py''] start)) =
     [Print 111 (''No URL provided. Summarizing default websites...'' @ nl),
      Construct ''http://localhost:11434/v1'' ''ollama'',
      Print 120 (ballot_x @ '' Error connecting to Ollama: Connection refused''),
      Print 121 (nl @ ''Make sure Ollama is running:''),
      Print 122 ''  1. Visit http://localhost:11434 to check if Ollama is running'',
      Print 123 ''  2. If not, run 'ollama serve' in a terminal'',
      Print 124 (''  3. Pull the model with 'ollama pull llama3.2'' @ [CHR 0x27])] \<and>
   fetched (trace (snd (main mock_env_no_endpoint [''claude_solution.py''] start))) = []"
proof -
  have h: "OpenAI mock_env_no_endpoint (OLLAMA_BASE_URL (globals start)) ''ollama'' (world start) =
     (Inl (Exception ''Connection refused''), 0)"
    by (simp add: mock_env_no_endpoint_def mock_env_def start_def)
  from main_connection_failure [OF h, of "[''claude_solution.py'']"]
  obtain st' where r: "main mock_env_no_endpoint [''claude_solution.py''] start = (Inl (SystemExit 1), st')"
    and x: "exit_code (fst (main mock_env_no_endpoint [''claude_solution.py''] start)) = 1"
    and t: "trace st' = trace (snd (main_resolve_urls [''claude_solution.py''] start)) @
             [Construct (OLLAMA_BASE_URL (globals start)) ''ollama'',
              Print 120 (ballot_x @ '' Error connecting to Ollama: '' @ ''Connection refused''),
              Print 121 (nl @ ''Make sure Ollama is running:''),
              Print 122 ''  1. Visit http://localhost:11434 to check if Ollama is running'',
              Print 123 ''  2. If not, run 'ollama serve' in a terminal'',
              Print 124 (''  3. Pull the model with 'ollama pull '' @ MODEL (globals start) @ [CHR 0x27])]"
    and f: "fetched (trace st') = fetched (trace start)"
    by blast
  have t': "trace st' =
     [Print 111 (''No URL provided. Summarizing default websites...'' @ nl),
      Construct ''http://localhost:11434/v1'' ''ollama'',
      Print 120 (ballot_x @ '' Error connecting to Ollama: Connection refused''),
      Print 121 (nl @ ''Make sure Ollama is running:''),
      Print 122 ''  1. Visit http://localhost:11434 to check if Ollama is running'',
      Print 123 ''  2. If not, run 'ollama serve' in a terminal'',
      Print 124 (''  3. Pull the model with 'ollama pull llama3.2'' @ [CHR 0x27])]"
    unfolding t by (simp add: main_resolve_urls_def start_def module_globals_def)
  have f': "fetched (trace st') = []"
    unfolding f by (simp add: start_def)
  show ?thesis
    using h r x t' f' by simp
qed

subsection \<open>The loop\<close>

lemma main_loop_results_length: "length (main_loop_results env client urls st) \<le> length urls"
proof (induction urls arbitrary: st)
  case Nil
  show ?case by simp
next
  case (Cons url urls)
  show ?case
  proof (cases "main_loop_body env client url st")
    case (Pair x st1)
    then show ?thesis using Cons.IH [of st1] by (cases x) simp_all
  qed
qed

lemma main_loop_completes:
  "list_all (\<lambda>r. \<not> is_SystemExit r) (main_loop_results env client urls st) \<Longrightarrow>
   fst (main_loop env client urls st) = Inr () \<and>
   length (main_loop_results env client urls st) = length urls"
proof (induction urls arbitrary: st)
  case Nil
  show ?case by simp
next
  case (Cons url urls)
  obtain x st1 where body: "main_loop_body env client url st = (x, st1)"
    by (cases "main_loop_body env client url st")
  from Cons.prems have
    "\<not> is_SystemExit (fst (summarize_website env url client (print 129 (replicate 70 CHR ''='') st)))"
    by simp
  then have x: "x = Inr ()"
    using main_loop_body_fst_Inr [of env url client st] body by simp
  with Cons.prems body have "list_all (\<lambda>r. \<not> is_SystemExit r) (main_loop_results env client urls st1)"
    by simp
  from Cons.IH [OF this] show ?case using body x by simp
qed

lemma main_loop_fetched:
  "fetched (trace (snd (main_loop env client urls st))) =
   fetched (trace st) @ take (length (main_loop_results env client urls st)) urls"
proof (induction urls arbitrary: st)
  case Nil
  show ?case by simp
next
  case (Cons url urls)
  obtain x st1 where body: "main_loop_body env client url st = (x, st1)"
    by (cases "main_loop_body env client url st")
  then have f: "fetched (trace st1) = fetched (trace st) @ [url]"
    using main_loop_body_fetched [of env client url st] by simp
  show ?case using body f Cons.IH [of st1] by (cases x) simp_all
qed

lemma main_loop_printed_at:
  assumes "line \<noteq> 81" "line \<noteq> 84" "line \<noteq> 129"
  shows "printed_at line (trace (snd (main_loop env client urls st))) =
         printed_at line (trace st) @
         concat (map (\<lambda>(url, r). printed_at line (report_events url r))
           (zip urls (main_loop_results env client urls st)))"
proof (induction urls arbitrary: st)
  case Nil
  show ?case by simp
next
  case (Cons url urls)
  obtain x st1 where body: "main_loop_body env client url st = (x, st1)"
    by (cases "main_loop_body env client url st")
  then have f: "printed_at line (trace st1) = printed_at line (trace st) @
      printed_at line (report_events url (fst (summarize_website env url client (print 129 (replicate 70 CHR ''='') st))))"
    using main_loop_body_printed_at [OF assms, of env client url st] by simp
  show ?case using body f Cons.IH [of st1] by (cases x) simp_all
qed

lemma main_loop_observed:
  "filter is_attempt_or_report (trace (snd (main_loop env client urls st))) =
   filter is_attempt_or_report (trace st) @
   concat (map (\<lambda>(url, r). Fetch url # report_events url r)
     (zip urls (main_loop_results env client urls st)))"
proof (induction urls arbitrary: st)
  case Nil
  show ?case by simp
next
  case (Cons url urls)
  obtain x st1 where body: "main_loop_body env client url st = (x, st1)"
    by (cases "main_loop_body env client url st")
  then have f: "filter is_attempt_or_report (trace st1) = filter is_attempt_or_report (trace st) @
      Fetch url # report_events url (fst (summarize_website env url client (print 129 (replicate 70 CHR ''='') st)))"
    using main_loop_body_observed [of env client url st] by simp
  show ?case using body f Cons.IH [of st1] by (cases x) simp_all
qed

lemma main_loop_append:
  "main_loop env client (xs @ ys) st =
     (case main_loop env client xs st of
        (Inl e, st1) \<Rightarrow> (Inl e, st1)
      | (Inr u, st1) \<Rightarrow> main_loop env client ys st1)"
proof (induction xs arbitrary: st)
  case Nil
  show ?case by simp
next
  case (Cons url xs)
  obtain x st1 where body: "main_loop_body env client url st = (x, st1)"
    by (cases "main_loop_body env client url st")
  show ?case using body Cons.IH [of st1] by (cases x) simp_all
qed

lemma main_loop_aborted:
  "length (main_loop_results env client urls st) = length urls \<or>
   (\<exists>n. fst (main_loop env client urls st) = Inl (SystemExit n))"
proof (induction urls arbitrary: st)
  case Nil
  show ?case by simp
next
  case (Cons url urls)
  obtain x st1 where body: "main_loop_body env client url st = (x, st1)"
    by (cases "main_loop_body env client url st")
  show ?case
  proof (cases x)
    case (Inl e)
    have "\<exists>n. x = Inl (SystemExit n)"
      using body Inl main_loop_body_fst [of env client url st]
      by (auto split: sum.splits exn.splits)
    with body show ?thesis by auto
  next
    case (Inr u)
    with body Cons.IH [of st1] show ?thesis by simp
  qed
qed

text \<open>
  C6. The loop works on one URL at a time, in the order of the list. Reading from the
  trace the fetches and the prints that report a result (the summary of lines 132 to
  134, or the error line of line 136) gives, for each URL in input order, its fetch
  followed by its own report, before the fetch of the next URL. All URLs are reached
  unless a collaborator raised \<open>SystemExit\<close>. The loop over a list followed by another
  is the loop over the first, then the loop over the second from the state reached.
\<close>

theorem main_loop_in_input_order:
  "filter is_attempt_or_report (trace (snd (main_loop env client urls st))) =
     filter is_attempt_or_report (trace st) @
     concat (map (\<lambda>(url, r). Fetch url # report_events url r)
       (zip urls (main_loop_results env client urls st))) \<and>
   (length (main_loop_results env client urls st) = length urls \<or>
    (\<exists>n. fst (main_loop env client urls st) = Inl (SystemExit n))) \<and>
   main_loop env client (urls @ later) st =
     (case main_loop env client urls st of
        (Inl e, st1) \<Rightarrow> (Inl e, st1)
      | (Inr u, st1) \<Rightarrow> main_loop env client later st1)"
  using main_loop_observed [of env client urls st] main_loop_aborted [of env client urls st]
    main_loop_append [of env client urls later st]
  by simp

text \<open>The fetches and reports of the three default URLs on the example environment.\<close>

theorem main_loop_in_input_order_witness:
  "filter is_attempt_or_report (trace (snd (main_loop mock_env () default_urls start))) =
     [Fetch ''https://edwarddonner.com'',
      Print 132 (nl @ page_facing_up @ '' Summary of https://edwarddonner.com:'' @ nl),
      Print 133 (''# Summary'' @ nl @ ''Hello.''),
      Print 134 '''',
      Fetch ''https://anthropic.com'',
      Print 136 (ballot_x @ '' Error summarizing https://anthropic.com: timed out'' @ nl),
      Fetch ''https://cnn.com'',
      Print 132 (nl @ page_facing_up @ '' Summary of https://cnn.com:'' @ nl),
      Print 133 (''# Summary'' @ nl @ ''Hello.''),
      Print 134 '''']"
proof -
  have results:
    "main_loop_results mock_env () default_urls start =
       [Inr (Some (''# Summary'' @ nl @ ''Hello.'')), Inl (Exception ''timed out''),
        Inr (Some (''# Summary'' @ nl @ ''Hello.''))]"
    by (simp add: model_defs mock_env_def start_def)
  have "filter is_attempt_or_report (trace (snd (main_loop mock_env () default_urls start))) =
     filter is_attempt_or_report (trace start) @
     concat (map (\<lambda>(url, r). Fetch url # report_events url r)
       (zip default_urls (main_loop_results mock_env () default_urls start)))"
    using main_loop_in_input_order [of mock_env "()" default_urls start "[]"] by blast
  then show ?thesis
    unfolding results by (simp add: default_urls_def report_events_def start_def py_str_def)
qed

subsection \<open>The run\<close>

lemma main_closing_fetched: "fetched (trace (main_closing st)) = fetched (trace st)"
  by (simp add: main_closing_def)

lemma main_closing_printed_at:
  "line < 138 \<Longrightarrow> printed_at line (trace (main_closing st)) = printed_at line (trace st)"
  by (simp add: main_closing_def)

lemma main_run_fetched:
  "fetched (trace (snd (main_run env urls st))) =
   fetched (trace st) @
   (case main_connect env st of
      (Inr client, st1) \<Rightarrow> take (length (main_loop_results env client urls st1)) urls
    | (Inl e, st1) \<Rightarrow> [])"
proof (cases "main_connect env st")
  case (Pair r st1)
  then have f: "fetched (trace st1) = fetched (trace st)"
    using main_connect_fetched [of env st] by simp
  show ?thesis
  proof (cases r)
    case (Inl e)
    with Pair f show ?thesis by (simp add: main_run_def)
  next
    case (Inr client)
    obtain x st2 where loop: "main_loop env client urls st1 = (x, st2)"
      by (cases "main_loop env client urls st1")
    then have "fetched (trace st2) =
        fetched (trace st) @ take (length (main_loop_results env client urls st1)) urls"
      using main_loop_fetched [of env client urls st1] f by simp
    with Pair Inr loop show ?thesis
      by (cases x) (simp_all add: main_run_def main_closing_fetched)
  qed
qed

lemma reports_of_successes_136:
  "concat (map (\<lambda>(url, r). printed_at 136 (report_events url r)) (zip us (map Inr ss))) = []"
  by (auto simp: report_events_def set_zip)

lemma reports_of_successes_133:
  "length us = length ss \<Longrightarrow>
   concat (map (\<lambda>(url, r). printed_at 133 (report_events url r)) (zip us (map Inr ss))) = map py_str ss"
  by (induction us ss rule: list_induct2) (auto simp: report_events_def)

text \<open>
  C2. Take a URL list and a run in which the client was constructed, the summarization
  at one position \<open>K\<close> (here \<open>length before\<close>) raises an \<open>Exception\<close> with text
  \<open>e\<close>, in the fetch or in the chat completion, and every other summarization returns.
  Then the results are as many as the URLs, every URL of the list is fetched, in
  order, exactly one error line is printed (line 136), the one for the URL at position
  \<open>K\<close> with the text \<open>e\<close>, the summaries of all the other URLs are printed, and the
  exit code is 0.
\<close>

theorem main_run_one_failure:
  assumes connect: "main_connect env st = (Inr client, st1)"
      and results: "main_loop_results env client urls st1 = map Inr before @ Inl (Exception e) # map Inr after"
  shows "length urls = length before + 1 + length after \<and>
         exit_code (fst (main_run env urls st)) = 0 \<and>
         fetched (trace (snd (main_run env urls st))) = fetched (trace st) @ urls \<and>
         printed_at 136 (trace (snd (main_run env urls st))) =
           printed_at 136 (trace st) @
           [ballot_x @ '' Error summarizing '' @ urls ! length before @ '': '' @ e @ nl] \<and>
         printed_at 133 (trace (snd (main_run env urls st))) =
           printed_at 133 (trace st) @ map py_str (before @ after)"
proof -
  let ?k = "length before"
  have "list_all (\<lambda>r. \<not> is_SystemExit r) (main_loop_results env client urls st1)"
    by (auto simp: results list_all_iff)
  from main_loop_completes [OF this]
  have fin: "fst (main_loop env client urls st1) = Inr ()"
    and len: "length (main_loop_results env client urls st1) = length urls"
    by simp_all
  from len have n: "length urls = length before + 1 + length after"
    by (simp add: results)
  obtain st2 where loop: "main_loop env client urls st1 = (Inr (), st2)"
    using fin by (cases "main_loop env client urls st1") simp
  have run: "main_run env urls st = (Inr (), main_closing st2)"
    using connect loop by (simp add: main_run_def)
  have tr1: "fetched (trace st1) = fetched (trace st)"
    "printed_at 136 (trace st1) = printed_at 136 (trace st)"
    "printed_at 133 (trace st1) = printed_at 133 (trace st)"
    using connect main_connect_fetched [of env st]
      main_connect_printed_at [of 136 env st] main_connect_printed_at [of 133 env st]
    by simp_all
  have f2: "fetched (trace st2) = fetched (trace st) @ urls"
    using main_loop_fetched [of env client urls st1] loop len tr1 by simp
  obtain us1 us2 where decomp: "urls = us1 @ urls ! ?k # us2"
    and lens: "length us1 = length before" "length us2 = length after"
  proof
    show "urls = take ?k urls @ urls ! ?k # drop (Suc ?k) urls"
      using n by (simp add: id_take_nth_drop)
    show "length (take ?k urls) = length before" "length (drop (Suc ?k) urls) = length after"
      using n by simp_all
  qed
  have "zip (us1 @ urls ! ?k # us2) (map Inr before @ Inl (Exception e) # map Inr after) =
      zip us1 (map Inr before) @ (urls ! ?k, Inl (Exception e)) # zip us2 (map Inr after)"
    using lens by simp
  then have zip: "zip urls (main_loop_results env client urls st1) =
      zip us1 (map Inr before) @ (urls ! ?k, Inl (Exception e)) # zip us2 (map Inr after)"
    using decomp results by simp
  have p136: "printed_at 136 (trace st2) = printed_at 136 (trace st) @
      [ballot_x @ '' Error summarizing '' @ urls ! ?k @ '': '' @ e @ nl]"
    using main_loop_printed_at [of 136 env client urls st1] loop tr1
    by (simp add: zip reports_of_successes_136) (simp add: report_events_def)
  have p133: "printed_at 133 (trace st2) = printed_at 133 (trace st) @ map py_str (before @ after)"
    using main_loop_printed_at [of 133 env client urls st1] loop tr1
    by (simp add: zip reports_of_successes_133 lens) (simp add: report_events_def)
  show ?thesis
    using n run f2 p136 p133
    by (simp add: exit_code_def main_closing_fetched main_closing_printed_at)
qed

text \<open>The three default URLs on the example environment, whose second fetch times out.\<close>

theorem main_run_one_failure_witness:
  "fst (main_connect mock_env start) = Inr () \<and>
   main_loop_results mock_env () default_urls (snd (main_connect mock_env start)) =
     map Inr [Some (''# Summary'' @ nl @ ''Hello.'')] @
     Inl (Exception ''timed out'') # map Inr [Some (''# Summary'' @ nl @ ''Hello.'')] \<and>
   length default_urls = 3 \<and>
   exit_code (fst (main_run mock_env default_urls start)) = 0 \<and>
   fetched (trace (snd (main_run mock_env default_urls start))) =
     [''https://edwarddonner.com'', ''https://anthropic.com'', ''https://cnn.com''] \<and>
   printed_at 136 (trace (snd (main_run mock_env default_urls start))) =
     [ballot_x @ '' Error summarizing https://anthropic.com: timed out'' @ nl] \<and>
   printed_at 133 (trace (snd (main_run mock_env default_urls start))) =
     [''# Summary'' @ nl @ ''Hello.'', ''# Summary'' @ nl @ ''Hello.'']"
proof -
  have c: "fst (main_connect mock_env start) = Inr ()"
    by (simp add: model_defs mock_env_def start_def)
  then have connect: "main_connect mock_env start = (Inr (), snd (main_connect mock_env start))"
    by (simp add: prod_eq_iff)
  have results:
    "main_loop_results mock_env () default_urls (snd (main_connect mock_env start)) =
       map Inr [Some (''# Summary'' @ nl @ ''Hello.'')] @
       Inl (Exception ''timed out'') # map Inr [Some (''# Summary'' @ nl @ ''Hello.'')]"
    by (simp add: model_defs mock_env_def start_def)
  have urls: "default_urls ! 1 = ''https://anthropic.com''" "length default_urls = 3"
    by (simp_all add: default_urls_def)
  show ?thesis
    using main_run_one_failure [OF connect results] c results urls
    by (simp add: start_def py_str_def) (simp add: default_urls_def)
qed

subsection \<open>Argument resolution\<close>

text \<open>
  C4. With exactly one command-line argument the URL list is that URL alone: when the
  client is constructed the run fetches that URL once and no other (and nothing when
  the construction fails). With no argument the URL list is the built-in list of three
  default URLs.
\<close>

theorem main_resolve_urls_argument:
  "fst (main_resolve_urls [prog, url] st) = [url] \<and>
   fetched (trace (snd (main env [prog, url] st))) =
     fetched (trace st) @ (case fst (main_connect env st) of Inr client \<Rightarrow> [url] | Inl e \<Rightarrow> []) \<and>
   fst (main_resolve_urls [prog] st) =
     [''https://edwarddonner.com'', ''https://anthropic.com'', ''https://cnn.com'']"
proof -
  have "fetched (trace (snd (main env [prog, url] st))) =
     fetched (trace st) @ (case fst (main_connect env st) of Inr client \<Rightarrow> [url] | Inl e \<Rightarrow> [])"
    using main_run_fetched [of env "[url]" st]
    by (simp add: main_def main_resolve_urls_def split: prod.splits sum.splits)
  then show ?thesis
    by (simp add: main_resolve_urls_def default_urls_def)
qed

text \<open>
  C9. With two or more command-line arguments, the URL list is the first argument
  alone and nothing is printed by the resolution; the whole run is the run with the
  first argument only, so the other arguments cause no error and no warning.
\<close>

theorem main_resolve_urls_extra_arguments:
  "main_resolve_urls (prog # url # arg # args) st = ([url], st) \<and>
   main env (prog # url # arg # args) st = main env [prog, url] st"
  by (simp add: main_def main_resolve_urls_def)

subsection \<open>The module globals\<close>

lemma create_messages_globals: "globals (snd (create_messages c st)) = globals st"
  by (simp add: create_messages_def)

lemma create_ollama_client_globals: "globals (snd (create_ollama_client env st)) = globals st"
  by (simp add: create_ollama_client_def)

lemma summarize_website_globals: "globals (snd (summarize_website env url client st)) = globals st"
  by (simp add: summarize_website_def create_messages_def Let_def case_prod_beta split: sum.splits list.splits prod.splits)

lemma main_loop_body_globals: "globals (snd (main_loop_body env client url st)) = globals st"
  by (simp add: main_loop_body_cases case_prod_beta summarize_website_globals)

lemma main_loop_globals: "globals (snd (main_loop env client urls st)) = globals st"
proof (induction urls arbitrary: st)
  case Nil
  show ?case by simp
next
  case (Cons url urls)
  show ?case
  proof (cases "main_loop_body env client url st")
    case (Pair r st1)
    then have g: "globals st1 = globals st"
      using main_loop_body_globals [of env client url st] by simp
    show ?thesis
      using Pair g Cons.IH [of st1] by (cases r) simp_all
  qed
qed

lemma main_resolve_urls_globals: "globals (snd (main_resolve_urls argv st)) = globals st"
  by (simp add: main_resolve_urls_def)

lemma main_connect_globals: "globals (snd (main_connect env st)) = globals st"
  by (simp add: main_connect_def create_ollama_client_def case_prod_beta split: sum.splits exn.splits)

lemma main_closing_globals: "globals (main_closing st) = globals st"
  by (simp add: main_closing_def)

lemma main_run_globals: "globals (snd (main_run env urls st)) = globals st"
proof (cases "main_connect env st")
  case (Pair r st1)
  then have g1: "globals st1 = globals st"
    using main_connect_globals [of env st] by simp
  show ?thesis
  proof (cases r)
    case (Inl e)
    with Pair g1 show ?thesis by (simp add: main_run_def)
  next
    case (Inr client)
    have "globals (snd (main_loop env client urls st1)) = globals st"
      using g1 by (simp add: main_loop_globals)
    with Pair Inr show ?thesis
      by (simp add: main_run_def main_closing_globals case_prod_beta split: sum.splits)
  qed
qed

lemma main_globals: "globals (snd (main env argv st)) = globals st"
  by (simp add: main_def case_prod_beta main_run_globals main_resolve_urls_globals)

lemma uses_globals_report_events [simp]: "list_all (uses_globals g) (report_events url r)"
  by (simp add: report_events_def split: sum.splits exn.splits)

lemma summarize_website_uses_globals:
  "list_all (uses_globals (globals st)) (trace st) \<Longrightarrow>
   list_all (uses_globals (globals st)) (trace (snd (summarize_website env url client st)))"
  by (simp add: summarize_website_unfold create_messages_def split: prod.splits sum.splits)

lemma main_loop_body_uses_globals:
  "list_all (uses_globals (globals st)) (trace st) \<Longrightarrow>
   list_all (uses_globals (globals st)) (trace (snd (main_loop_body env client url st)))"
  using summarize_website_uses_globals [of "print 129 (replicate 70 CHR ''='') st" env url client]
  by (simp add: main_loop_body_trace)

lemma main_loop_uses_globals:
  "list_all (uses_globals (globals st)) (trace st) \<Longrightarrow>
   list_all (uses_globals (globals st)) (trace (snd (main_loop env client urls st)))"
proof (induction urls arbitrary: st)
  case Nil
  then show ?case by simp
next
  case (Cons url urls)
  obtain x st1 where body: "main_loop_body env client url st = (x, st1)"
    by (cases "main_loop_body env client url st")
  have g: "globals st1 = globals st"
    using body main_loop_body_globals [of env client url st] by simp
  have u: "list_all (uses_globals (globals st1)) (trace st1)"
    using body g main_loop_body_uses_globals [OF Cons.prems, of env client url] by simp
  from Cons.IH [OF u] show ?case using body g u by (cases x) simp_all
qed

lemma main_connect_uses_globals:
  "list_all (uses_globals (globals st)) (trace st) \<Longrightarrow>
   list_all (uses_globals (globals st)) (trace (snd (main_connect env st)))"
  by (simp add: main_connect_unfold Let_def split: prod.splits sum.splits exn.splits)

lemma main_run_uses_globals:
  assumes "list_all (uses_globals (globals st)) (trace st)"
  shows "list_all (uses_globals (globals st)) (trace (snd (main_run env urls st)))"
proof (cases "main_connect env st")
  case (Pair r st1)
  then have g1: "globals st1 = globals st"
    using main_connect_globals [of env st] by simp
  have u1: "list_all (uses_globals (globals st1)) (trace st1)"
    using Pair g1 main_connect_uses_globals [OF assms, of env] by simp
  show ?thesis
  proof (cases r)
    case (Inl e)
    with Pair g1 u1 show ?thesis by (simp add: main_run_def)
  next
    case (Inr client)
    obtain x st2 where loop: "main_loop env client urls st1 = (x, st2)"
      by (cases "main_loop env client urls st1")
    then have "list_all (uses_globals (globals st)) (trace st2)"
      using main_loop_uses_globals [OF u1, of env client urls] g1 by simp
    with Pair Inr loop show ?thesis
      by (cases x) (simp_all add: main_run_def main_closing_def)
  qed
qed

lemma main_uses_globals:
  "list_all (uses_globals (globals st)) (trace st) \<Longrightarrow>
   list_all (uses_globals (globals st)) (trace (snd (main env argv st)))"
  using main_run_uses_globals [of "snd (main_resolve_urls argv st)" env "fst (main_resolve_urls argv st)"]
  by (simp add: main_def case_prod_beta main_resolve_urls_globals) (simp add: main_resolve_urls_def)

text \<open>
  C7. No operation of the script assigns a module global: each function of the script
  and each part of \<open>main\<close> leaves the globals as they were, and a run of the script ends
  with the values bound at start-up. Every call of a collaborator in a run of the script
  sees these values: the client is constructed with the base URL of the module, and
  every chat completion is called with the model, the system prompt and the user prompt
  prefix of the module.
\<close>

theorem globals_never_assigned:
  "globals (print line s st) = globals st \<and>
   globals (snd (create_ollama_client env st)) = globals st \<and>
   globals (snd (create_messages c st)) = globals st \<and>
   globals (snd (summarize_website env url client st)) = globals st \<and>
   globals (snd (main_resolve_urls argv st)) = globals st \<and>
   globals (snd (main_connect env st)) = globals st \<and>
   globals (snd (main_loop env client urls st)) = globals st \<and>
   globals (main_closing st) = globals st \<and>
   globals (snd (main env argv st)) = globals st \<and>
   globals (snd (script env argv w)) = module_globals \<and>
   list_all (uses_globals module_globals) (trace (snd (script env argv w)))"
proof -
  have "list_all (uses_globals module_globals) (trace (snd (script env argv w)))"
    using main_uses_globals [of "\<lparr>globals = module_globals, trace = [], world = w\<rparr>" env argv]
    by (simp add: script_def)
  then show ?thesis
    by (simp add: create_ollama_client_globals create_messages_globals summarize_website_globals
        main_resolve_urls_globals main_connect_globals main_loop_globals main_closing_globals
        main_globals script_def)
qed

end
